theory Spec2Isabelle
  imports Main "HOL-Library.Word"
begin

unbundle bit_operations_syntax

section \<open>The key registry\<close>

text \<open>
  The registry is the struct \<open>KeySet\<close> of \<^verbatim>\<open>hactool_processor.keys.cpp\<close>. Every slot is
  a fixed-size array of \<open>u8\<close>; a slot indexed by key generation (or by class-key index) is
  a C array of such arrays. A byte array is a list of 8-bit words, an indexed family of
  arrays is a function from the index: every loop of the source indexes these families
  below \<open>pkg1::KeyGeneration_Max\<close>, the declared number of rows, so no access leaves them.
\<close>

type_synonym u8 = "8 word"
type_synonym bytes = "u8 list"

record KeySet =
  secure_boot_key :: bytes
  tsec_key :: bytes
  device_key :: bytes
  keyblob_keys :: "nat \<Rightarrow> bytes"
  keyblob_mac_keys :: "nat \<Rightarrow> bytes"
  encrypted_keyblobs :: "nat \<Rightarrow> bytes"
  mariko_aes_class_keys :: "nat \<Rightarrow> bytes"
  mariko_kek :: bytes
  mariko_bek :: bytes
  keyblobs :: "nat \<Rightarrow> bytes"
  keyblob_key_sources :: "nat \<Rightarrow> bytes"
  keyblob_mac_key_source :: bytes
  tsec_root_kek :: bytes
  package1_mac_kek :: bytes
  package1_kek :: bytes
  tsec_auth_signatures :: "nat \<Rightarrow> bytes"
  tsec_root_keys :: "nat \<Rightarrow> bytes"
  master_kek_sources :: "nat \<Rightarrow> bytes"
  mariko_master_kek_sources :: "nat \<Rightarrow> bytes"
  master_keks :: "nat \<Rightarrow> bytes"
  master_key_source :: bytes
  master_keys :: "nat \<Rightarrow> bytes"
  package1_mac_keys :: "nat \<Rightarrow> bytes"
  package1_keys :: "nat \<Rightarrow> bytes"
  package2_keys :: "nat \<Rightarrow> bytes"
  package2_key_source :: bytes
  per_console_key_source :: bytes
  aes_kek_generation_source :: bytes
  aes_key_generation_source :: bytes
  key_area_key_application_source :: bytes
  key_area_key_ocean_source :: bytes
  key_area_key_system_source :: bytes
  titlekek_source :: bytes
  header_kek_source :: bytes
  sd_card_kek_source :: bytes
  sd_card_nca_key_source :: bytes
  sd_card_save_key_source :: bytes
  save_mac_kek_source :: bytes
  save_mac_key_source :: bytes
  header_key_source :: bytes
  header_key :: bytes
  titlekeks :: "nat \<Rightarrow> bytes"
  key_area_keys :: "nat \<Rightarrow> nat \<Rightarrow> bytes"
  xci_header_key :: bytes
  save_mac_key :: bytes
  sd_card_keys :: "nat \<Rightarrow> bytes"
  nca_hdr_fixed_key_moduli :: "nat \<Rightarrow> bytes"
  acid_fixed_key_moduli :: "nat \<Rightarrow> bytes"
  package2_fixed_key_modulus :: bytes

text \<open>
  The enumeration \<open>pkg1::KeyGeneration\<close> comes from a header outside these sources. Its
  three values the engine uses are a parameter of the model.
\<close>

record KeyGeneration =
  KeyGeneration_1_0_0 :: nat
  KeyGeneration_6_2_0 :: nat
  KeyGeneration_Max :: nat

text \<open>\<open>AesKeySize\<close>, the key and block size of AES-128 in bytes.\<close>

definition AesKeySize :: nat where
  "AesKeySize = 16"

text \<open>\<open>IsZero(data, size)\<close>: the loop returns false at the first non-zero byte.\<close>

fun IsZero :: "bytes \<Rightarrow> bool" where
  "IsZero [] = True"
| "IsZero (b # data) = (if b \<noteq> 0 then False else IsZero data)"

text \<open>
  \<open>sizeof\<close> of a whole generation-indexed family covers all its rows: the bytes of rows
  \<open>0 .. KeyGeneration_Max - 1\<close> one after the other.
\<close>

definition all_rows :: "KeyGeneration \<Rightarrow> (nat \<Rightarrow> bytes) \<Rightarrow> bytes" where
  "all_rows kg rows = concat (map rows [0 ..< KeyGeneration_Max kg])"

section \<open>The derivation engine\<close>

text \<open>
  \<open>AesDecryptor128(key).DecryptBlock(dst, src)\<close> is the single-block AES-128 decryption of
  the library; the model takes it as the parameter \<open>dec\<close>, with \<open>dec key src\<close> the block
  written to \<open>dst\<close>. Each loop of \<open>DeriveKeys\<close> is a fold of its body over the generations
  it visits; \<open>SKIP_IF_UNSET(v)\<close> is a \<open>continue\<close>, which leaves the registry as it is.
\<close>

type_synonym cipher = "bytes \<Rightarrow> bytes \<Rightarrow> bytes"

definition derive_keyblob_keys :: "cipher \<Rightarrow> KeyGeneration \<Rightarrow> nat \<Rightarrow> KeySet \<Rightarrow> KeySet" where
  "derive_keyblob_keys dec kg gen ks =
     (if IsZero (secure_boot_key ks) then ks
      else if IsZero (tsec_key ks) then ks
      else if IsZero (keyblob_key_sources ks gen) then ks
      else
        let ks1 = ks\<lparr>keyblob_keys := (keyblob_keys ks)
                       (gen := dec (tsec_key ks) (keyblob_key_sources ks gen))\<rparr>;
            ks2 = ks1\<lparr>keyblob_keys := (keyblob_keys ks1)
                       (gen := dec (secure_boot_key ks1) (keyblob_keys ks1 gen))\<rparr>
        in if IsZero (keyblob_mac_key_source ks2) then ks2
           else
             let ks3 = ks2\<lparr>keyblob_mac_keys := (keyblob_mac_keys ks2)
                            (gen := dec (keyblob_keys ks2 gen) (keyblob_mac_key_source ks2))\<rparr>
             in if gen = KeyGeneration_1_0_0 kg \<and> \<not> IsZero (per_console_key_source ks3)
                then ks3\<lparr>device_key := dec (keyblob_keys ks3 gen) (per_console_key_source ks3)\<rparr>
                else ks3)"

definition decrypt_keyblobs :: "KeyGeneration \<Rightarrow> nat \<Rightarrow> KeySet \<Rightarrow> KeySet" where
  "decrypt_keyblobs kg gen ks =
     (if IsZero (all_rows kg (keyblob_keys ks)) then ks
      else if IsZero (all_rows kg (keyblob_mac_keys ks)) then ks
      else if IsZero (all_rows kg (encrypted_keyblobs ks)) then ks
      else ks)"

definition set_keys_via_keyblobs :: "nat \<Rightarrow> KeySet \<Rightarrow> KeySet" where
  "set_keys_via_keyblobs gen ks =
     (let ks1 = (if \<not> IsZero (take AesKeySize (drop 0x80 (keyblobs ks gen)))
                 then ks\<lparr>package1_keys := (package1_keys ks)
                        (gen := take AesKeySize (drop 0x80 (keyblobs ks gen)))\<rparr>
                 else ks)
      in if \<not> IsZero (take AesKeySize (drop 0x00 (keyblobs ks1 gen)))
         then ks1\<lparr>master_keks := (master_keks ks1)
                (gen := take AesKeySize (drop 0x00 (keyblobs ks1 gen)))\<rparr>
         else ks1)"

definition derive_via_tsec :: "KeyGeneration \<Rightarrow> nat \<Rightarrow> KeySet \<Rightarrow> KeySet" where
  "derive_via_tsec kg gen ks =
     (if IsZero (tsec_auth_signatures ks (gen - KeyGeneration_6_2_0 kg)) then ks else ks)"

definition derive_master_keks_mariko :: "cipher \<Rightarrow> nat \<Rightarrow> KeySet \<Rightarrow> KeySet" where
  "derive_master_keks_mariko dec gen ks =
     (if IsZero (mariko_kek ks) then ks
      else if IsZero (mariko_master_kek_sources ks gen) then ks
      else ks\<lparr>master_keks := (master_keks ks)
             (gen := dec (mariko_kek ks) (mariko_master_kek_sources ks gen))\<rparr>)"

definition derive_master_keys :: "cipher \<Rightarrow> nat \<Rightarrow> KeySet \<Rightarrow> KeySet" where
  "derive_master_keys dec gen ks =
     (if IsZero (master_key_source ks) then ks
      else if IsZero (master_keks ks gen) then ks
      else ks\<lparr>master_keys := (master_keys ks)
             (gen := dec (master_keks ks gen) (master_key_source ks))\<rparr>)"

definition DeriveKeys :: "cipher \<Rightarrow> KeyGeneration \<Rightarrow> KeySet \<Rightarrow> KeySet" where
  "DeriveKeys dec kg ks =
     (let g0 = KeyGeneration_1_0_0 kg; g6 = KeyGeneration_6_2_0 kg; gmax = KeyGeneration_Max kg;
          ks1 = fold (derive_keyblob_keys dec kg) [g0 ..< g6] ks;
          ks2 = fold (decrypt_keyblobs kg) [g0 ..< g6] ks1;
          ks3 = fold set_keys_via_keyblobs [g0 ..< g6] ks2;
          ks4 = fold (derive_via_tsec kg) [g6 ..< gmax] ks3;
          ks5 = fold (derive_master_keks_mariko dec) [g0 ..< gmax] ks4
      in fold (derive_master_keys dec) [g0 ..< gmax] ks5)"


text \<open>
  The registry starts as the zero-initialised global \<open>g_keyset\<close>
  (\<^verbatim>\<open>constinit KeySet g_keyset{}\<close>): every slot all zero, which the engine reads as unset.
  \<open>RsaKeySize\<close> is the modulus size of RSA-2048 in bytes.
\<close>

definition RsaKeySize :: nat where
  "RsaKeySize = 256"

definition g_keyset :: "KeyGeneration \<Rightarrow> KeySet" where
  "g_keyset kg =
     \<lparr>secure_boot_key = replicate AesKeySize 0,
      tsec_key = replicate AesKeySize 0,
      device_key = replicate AesKeySize 0,
      keyblob_keys = (\<lambda>_. replicate AesKeySize 0),
      keyblob_mac_keys = (\<lambda>_. replicate AesKeySize 0),
      encrypted_keyblobs = (\<lambda>_. replicate 0xB0 0),
      mariko_aes_class_keys = (\<lambda>_. replicate AesKeySize 0),
      mariko_kek = replicate AesKeySize 0,
      mariko_bek = replicate AesKeySize 0,
      keyblobs = (\<lambda>_. replicate 0x90 0),
      keyblob_key_sources = (\<lambda>_. replicate AesKeySize 0),
      keyblob_mac_key_source = replicate AesKeySize 0,
      tsec_root_kek = replicate AesKeySize 0,
      package1_mac_kek = replicate AesKeySize 0,
      package1_kek = replicate AesKeySize 0,
      tsec_auth_signatures = (\<lambda>_. replicate AesKeySize 0),
      tsec_root_keys = (\<lambda>_. replicate AesKeySize 0),
      master_kek_sources = (\<lambda>_. replicate AesKeySize 0),
      mariko_master_kek_sources = (\<lambda>_. replicate AesKeySize 0),
      master_keks = (\<lambda>_. replicate AesKeySize 0),
      master_key_source = replicate AesKeySize 0,
      master_keys = (\<lambda>_. replicate AesKeySize 0),
      package1_mac_keys = (\<lambda>_. replicate AesKeySize 0),
      package1_keys = (\<lambda>_. replicate AesKeySize 0),
      package2_keys = (\<lambda>_. replicate AesKeySize 0),
      package2_key_source = replicate AesKeySize 0,
      per_console_key_source = replicate AesKeySize 0,
      aes_kek_generation_source = replicate AesKeySize 0,
      aes_key_generation_source = replicate AesKeySize 0,
      key_area_key_application_source = replicate AesKeySize 0,
      key_area_key_ocean_source = replicate AesKeySize 0,
      key_area_key_system_source = replicate AesKeySize 0,
      titlekek_source = replicate AesKeySize 0,
      header_kek_source = replicate AesKeySize 0,
      sd_card_kek_source = replicate AesKeySize 0,
      sd_card_nca_key_source = replicate 0x20 0,
      sd_card_save_key_source = replicate 0x20 0,
      save_mac_kek_source = replicate AesKeySize 0,
      save_mac_key_source = replicate AesKeySize 0,
      header_key_source = replicate (KeyGeneration_Max kg) 0,
      header_key = replicate (KeyGeneration_Max kg) 0,
      titlekeks = (\<lambda>_. replicate AesKeySize 0),
      key_area_keys = (\<lambda>_ _. replicate AesKeySize 0),
      xci_header_key = replicate AesKeySize 0,
      save_mac_key = replicate AesKeySize 0,
      sd_card_keys = (\<lambda>_. replicate (KeyGeneration_Max kg) 0),
      nca_hdr_fixed_key_moduli = (\<lambda>_. replicate RsaKeySize 0),
      acid_fixed_key_moduli = (\<lambda>_. replicate RsaKeySize 0),
      package2_fixed_key_modulus = replicate RsaKeySize 0\<rparr>"

subsection \<open>Sample registries\<close>

text \<open>
  Concrete inputs on which the engine is run below. \<open>pkg1_generations\<close> numbers the
  generations from 0, with the 6.2.0 breakpoint at 6 and 32 rows. \<open>sample_cipher\<close> stands
  in for the AES primitive on these inputs only: a keyed bytewise permutation for which
  the order of two decryptions matters. The general theorems hold for every \<open>dec\<close>.
\<close>

definition pkg1_generations :: KeyGeneration where
  "pkg1_generations = \<lparr>KeyGeneration_1_0_0 = 0, KeyGeneration_6_2_0 = 6, KeyGeneration_Max = 32\<rparr>"

definition sample_cipher :: cipher where
  "sample_cipher key src = map2 (\<lambda>k s. 3 * s + k) key src"

text \<open>A console with the legacy roots and the seeds of generation 0, as a key file sets them.\<close>

definition ks_legacy :: KeySet where
  "ks_legacy = (g_keyset pkg1_generations)
     \<lparr>secure_boot_key := [0x10, 0x11, 0x12, 0x13, 0x14, 0x15, 0x16, 0x17, 0x18, 0x19, 0x1A, 0x1B, 0x1C, 0x1D, 0x1E, 0x1F],
      tsec_key := [0x21, 0x23, 0x25, 0x27, 0x29, 0x2B, 0x2D, 0x2F, 0x31, 0x33, 0x35, 0x37, 0x39, 0x3B, 0x3D, 0x3F],
      keyblob_key_sources := (\<lambda>_. replicate AesKeySize 0)
        (0 := [0xA0, 0xA1, 0xA2, 0xA3, 0xA4, 0xA5, 0xA6, 0xA7, 0xA8, 0xA9, 0xAA, 0xAB, 0xAC, 0xAD, 0xAE, 0xAF]),
      keyblob_mac_key_source := [0x55, 0xAA, 0x55, 0xAA, 0x55, 0xAA, 0x55, 0xAA, 0x55, 0xAA, 0x55, 0xAA, 0x55, 0xAA, 0x55, 0xAA],
      per_console_key_source := [0x0F, 0x0F, 0x0F, 0x0F, 0x0F, 0x0F, 0x0F, 0x0F, 0x0F, 0x0F, 0x0F, 0x0F, 0x0F, 0x0F, 0x0F, 0x0F]\<rparr>"

text \<open>
  A registry holding both a decrypted keyblob of generation 0 (whose first 16 bytes are a
  master kek) and the Mariko inputs of that generation.
\<close>

definition ks_mariko :: KeySet where
  "ks_mariko = (g_keyset pkg1_generations)
     \<lparr>keyblobs := (\<lambda>_. replicate 0x90 0)
        (0 := [0x70, 0x71, 0x72, 0x73, 0x74, 0x75, 0x76, 0x77, 0x78, 0x79, 0x7A, 0x7B, 0x7C, 0x7D, 0x7E, 0x7F] @ replicate 0x80 0),
      mariko_kek := [0xC0, 0xC1, 0xC2, 0xC3, 0xC4, 0xC5, 0xC6, 0xC7, 0xC8, 0xC9, 0xCA, 0xCB, 0xCC, 0xCD, 0xCE, 0xCF],
      mariko_master_kek_sources := (\<lambda>_. replicate AesKeySize 0)
        (0 := [0x31, 0x32, 0x33, 0x34, 0x35, 0x36, 0x37, 0x38, 0x39, 0x3A, 0x3B, 0x3C, 0x3D, 0x3E, 0x3F, 0x40]),
      master_key_source := [0x99, 0x99, 0x99, 0x99, 0x99, 0x99, 0x99, 0x99, 0x99, 0x99, 0x99, 0x99, 0x99, 0x99, 0x99, 0x99]\<rparr>"

text \<open>
  A registry after a key file with the lines \<open>keyblob_key_00\<close> and
  \<open>keyblob_mac_key_source\<close> only: the keyblob key of generation 0 is present, the console
  roots are not.
\<close>

definition ks_file :: KeySet where
  "ks_file = (g_keyset pkg1_generations)
     \<lparr>keyblob_keys := (\<lambda>_. replicate AesKeySize 0)
        (0 := [0xE0, 0xE1, 0xE2, 0xE3, 0xE4, 0xE5, 0xE6, 0xE7, 0xE8, 0xE9, 0xEA, 0xEB, 0xEC, 0xED, 0xEE, 0xEF]),
      keyblob_mac_key_source := [0x55, 0xAA, 0x55, 0xAA, 0x55, 0xAA, 0x55, 0xAA, 0x55, 0xAA, 0x55, 0xAA, 0x55, 0xAA, 0x55, 0xAA]\<rparr>"

text \<open>
  A registry with the Mariko inputs of generation 0 and a master kek of generation 1, but no
  master key source.
\<close>

definition ks_no_source :: KeySet where
  "ks_no_source = (g_keyset pkg1_generations)
     \<lparr>mariko_kek := [0xC0, 0xC1, 0xC2, 0xC3, 0xC4, 0xC5, 0xC6, 0xC7, 0xC8, 0xC9, 0xCA, 0xCB, 0xCC, 0xCD, 0xCE, 0xCF],
      mariko_master_kek_sources := (\<lambda>_. replicate AesKeySize 0)
        (0 := [0x31, 0x32, 0x33, 0x34, 0x35, 0x36, 0x37, 0x38, 0x39, 0x3A, 0x3B, 0x3C, 0x3D, 0x3E, 0x3F, 0x40]),
      master_keks := (\<lambda>_. replicate AesKeySize 0)
        (1 := [0x70, 0x71, 0x72, 0x73, 0x74, 0x75, 0x76, 0x77, 0x78, 0x79, 0x7A, 0x7B, 0x7C, 0x7D, 0x7E, 0x7F])\<rparr>"


text \<open>
  \<open>derived_only ks ks'\<close>: the registry \<open>ks'\<close> is \<open>ks\<close> with at most the six derived slots
  replaced. It is a notion of the proofs, not of the source.
\<close>

definition derived_only :: "KeySet \<Rightarrow> KeySet \<Rightarrow> bool" where
  "derived_only ks ks' \<longleftrightarrow>
     ks' = ks\<lparr>keyblob_keys := keyblob_keys ks', keyblob_mac_keys := keyblob_mac_keys ks',
               device_key := device_key ks', package1_keys := package1_keys ks',
               master_keks := master_keks ks', master_keys := master_keys ks'\<rparr>"

section \<open>Characters, C strings and diagnostics\<close>

text \<open>
  A \<open>const char *\<close> of the source is an offset into an array of characters: \<open>mem\<close> holds
  the bytes of the array the pointer points into, as far as they are known. The character
  tests of the source compare \<open>char\<close> values inside the ASCII range, so comparing the
  unsigned codes gives the same answers whether \<open>char\<close> is signed or not.
\<close>

definition NUL :: char where
  "NUL = CHR 0x00"

definition in_range :: "char \<Rightarrow> char \<Rightarrow> char \<Rightarrow> bool" where
  "in_range lo hi c \<longleftrightarrow> (of_char lo :: nat) \<le> of_char c \<and> (of_char c :: nat) \<le> of_char hi"

text \<open>
  The test \<open>!('0' <= c && c <= '9') && !('a' <= c && c <= 'f') && !('A' <= c && c <= 'F')\<close>
  of \<open>LoadTitleKey\<close> and \<open>ProcessKeyValue\<close>.
\<close>

definition not_hex :: "char \<Rightarrow> bool" where
  "not_hex c \<longleftrightarrow> \<not> in_range CHR ''0'' CHR ''9'' c \<and> \<not> in_range CHR ''a'' CHR ''f'' c
                 \<and> \<not> in_range CHR ''A'' CHR ''F'' c"

text \<open>
  \<open>std::strlen\<close>: the number of characters before the first NUL at or after \<open>p\<close>. With no
  NUL left in the array the call runs off its end, which is the value \<open>None\<close>.
\<close>

definition strlen :: "char list \<Rightarrow> nat \<Rightarrow> nat option" where
  "strlen mem p =
     (if NUL \<in> set (drop p mem) then Some (length (takeWhile (\<lambda>c. c \<noteq> NUL) (drop p mem)))
      else None)"

text \<open>The characters of the C string at \<open>p\<close>.\<close>

definition cstr :: "char list \<Rightarrow> nat \<Rightarrow> string" where
  "cstr mem p = takeWhile (\<lambda>c. c \<noteq> NUL) (drop p mem)"

text \<open>
  The diagnostics written to \<open>stderr\<close>, one constructor for each \<open>fprintf\<close> of \<open>DecodeHex\<close>,
  \<open>LoadTitleKey\<close>, \<open>ProcessKeyValue\<close> and \<open>ProcessKeyValueFile\<close>, in the order of the source.
\<close>

datatype warning =
    HexLengthMismatch nat nat
  | RightsIdOddLength | RightsIdWrongLength | RightsIdNotHex | AccessKeyWrongLength
  | ValueOddLength | ValueNotHex
  | MalformedKey | TruncatedPair | MalformedPair | EmptyKey | MissingValue

section \<open>Hex codec\<close>

definition HexToI :: "char \<Rightarrow> int" where
  "HexToI c =
     (if in_range CHR ''a'' CHR ''f'' c then 0xA + (of_char c - of_char CHR ''a'')
      else if in_range CHR ''A'' CHR ''F'' c then 0xA + (of_char c - of_char CHR ''A'')
      else if in_range CHR ''0'' CHR ''9'' c then 0x0 + (of_char c - of_char CHR ''0'')
      else 0)"

text \<open>One assignment \<open>dst[i] = (HexToI(hi) << 4) | (HexToI(lo) << 0)\<close>, narrowed to \<open>u8\<close>.\<close>

definition hex_byte :: "char \<Rightarrow> char \<Rightarrow> u8" where
  "hex_byte hi lo = word_of_int (push_bit 4 (HexToI hi) OR push_bit 0 (HexToI lo))"

text \<open>The loop of \<open>DecodeHex\<close>: it runs \<open>sz\<close> times whatever the length of the string is.\<close>

definition decode_pairs :: "char list \<Rightarrow> nat \<Rightarrow> nat \<Rightarrow> bytes" where
  "decode_pairs mem src sz =
     map (\<lambda>i. hex_byte (mem ! (src + (2 * i + 0))) (mem ! (src + (2 * i + 1)))) [0 ..< sz]"

text \<open>
  \<open>DecodeHex(dst, src, size)\<close> returns the diagnostics and the bytes written to \<open>dst\<close>. The
  loop reads \<open>src[0 .. 2 * size - 1]\<close>; when that leaves the array the behaviour of the
  source is undefined, which is the value \<open>None\<close>.
\<close>

definition DecodeHex :: "char list \<Rightarrow> nat \<Rightarrow> nat \<Rightarrow> (warning list \<times> bytes) option" where
  "DecodeHex mem src sz =
     (case strlen mem src of
        None \<Rightarrow> None
      | Some len \<Rightarrow>
          let warned = (if len \<noteq> 2 * sz then [HexLengthMismatch len (2 * sz)] else [])
          in if src + 2 * sz \<le> length mem then Some (warned, decode_pairs mem src sz)
             else None)"

section \<open>Title-key loader\<close>

text \<open>
  Modelled from the spec: the types \<open>fs::RightsId\<close> and \<open>spl::AccessKey\<close> are declared
  outside these sources; the rights identifier and the access key are 128 bits each.
\<close>

definition RightsIdSize :: nat where
  "RightsIdSize = 16"

definition AccessKeySize :: nat where
  "AccessKeySize = 16"

text \<open>
  \<open>LoadTitleKey(km, key, value)\<close>. The key manager and its \<open>Register\<close> belong to a library
  outside these sources: \<open>reg\<close> is the parameter standing for \<open>km.Register\<close>. The result is
  the diagnostics and the key manager after the call.
\<close>

definition LoadTitleKey ::
  "('km \<Rightarrow> bytes \<Rightarrow> bytes \<Rightarrow> 'km) \<Rightarrow> 'km \<Rightarrow> char list \<Rightarrow> nat \<Rightarrow> nat
     \<Rightarrow> (warning list \<times> 'km) option" where
  "LoadTitleKey reg km mem key val =
     (case strlen mem key of
        None \<Rightarrow> None
      | Some key_len \<Rightarrow>
          if key_len mod 2 \<noteq> 0 then Some ([RightsIdOddLength], km)
          else if key_len \<noteq> 32 then Some ([RightsIdWrongLength], km)
          else if list_ex not_hex (take key_len (drop key mem)) then Some ([RightsIdNotHex], km)
          else
            (case strlen mem val of
               None \<Rightarrow> None
             | Some value_len \<Rightarrow>
                 let warned = (if value_len \<noteq> 32 then [AccessKeyWrongLength] else [])
                 in (case DecodeHex mem key RightsIdSize of
                       None \<Rightarrow> None
                     | Some (w1, rights_id) \<Rightarrow>
                         (case DecodeHex mem val AccessKeySize of
                            None \<Rightarrow> None
                          | Some (w2, access_key) \<Rightarrow>
                              Some (warned @ w1 @ w2, reg km rights_id access_key)))))"

section \<open>Key-value text parser\<close>

text \<open>
  \<open>ProcessKeyValue(path, key, value, f)\<close>: \<open>key\<close> and \<open>value\<close> point into the file buffer,
  \<open>f\<close> is the callback and \<open>st\<close> pairs the diagnostics so far with the callback's state.
  \<open>path\<close> only appears in messages. \<open>None\<close>: the value has no terminator inside the buffer.
\<close>

definition ProcessKeyValue ::
  "(char list \<Rightarrow> nat \<Rightarrow> nat \<Rightarrow> 's \<Rightarrow> 's) \<Rightarrow> char list \<Rightarrow> nat \<Rightarrow> nat \<Rightarrow> warning list \<times> 's
     \<Rightarrow> (warning list \<times> 's) option" where
  "ProcessKeyValue f mem key val st =
     (case strlen mem val of
        None \<Rightarrow> None
      | Some value_len \<Rightarrow>
          if value_len mod 2 \<noteq> 0 then Some (fst st @ [ValueOddLength], snd st)
          else if list_ex not_hex (take value_len (drop val mem))
          then Some (fst st @ [ValueNotHex], snd st)
          else Some (fst st, f mem key val (snd st)))"

text \<open>The character classes of the tests in \<open>ProcessKeyValueFile\<close>.\<close>

definition is_filler :: "char \<Rightarrow> bool" where
  "is_filler c \<longleftrightarrow> c = CHR 0x0A \<or> c = CHR 0x0D \<or> c = NUL \<or> c = CHR '' '' \<or> c = CHR 0x09"

definition is_key_end :: "char \<Rightarrow> bool" where
  "is_key_end c \<longleftrightarrow> c = CHR '' '' \<or> c = CHR '','' \<or> c = CHR 0x09 \<or> c = CHR ''=''"

definition is_upper :: "char \<Rightarrow> bool" where
  "is_upper c \<longleftrightarrow> in_range CHR ''A'' CHR ''Z'' c"

definition to_lower :: "char \<Rightarrow> char" where
  "to_lower c = char_of ((of_char CHR ''a'' :: int) + (of_char c - of_char CHR ''A''))"

definition not_key_char :: "char \<Rightarrow> bool" where
  "not_key_char c \<longleftrightarrow> c \<noteq> CHR ''_'' \<and> \<not> in_range CHR ''0'' CHR ''9'' c
                      \<and> \<not> in_range CHR ''a'' CHR ''z'' c"

definition is_blank :: "char \<Rightarrow> bool" where
  "is_blank c \<longleftrightarrow> c = CHR '' '' \<or> c = CHR 0x09"

definition is_value_end :: "char \<Rightarrow> bool" where
  "is_value_end c \<longleftrightarrow> c = CHR 0x0A \<or> c = CHR 0x0D \<or> c = CHR '' '' \<or> c = CHR 0x09"

text \<open>
  How a run of the parser ends: the buffer is exhausted, a \<open>return\<close> after a warning, or
  an access one past the end of the buffer (\<open>buf[kend + 1]\<close>, \<open>buf[kend]\<close> with
  \<open>kend == file_size\<close>, or \<open>strlen\<close> of an unterminated value).
\<close>

datatype stop = Finished | Aborted | OutOfBounds

datatype key_scan = KeyEnd "char list" nat | KeyReturn stop

text \<open>
  The key loop \<open>for (kend = ofs; kend < file_size; ++kend)\<close>. \<open>KeyEnd buf kend\<close>: the loop
  is left by \<open>break\<close> or by its condition; \<open>KeyReturn\<close>: the function returns from inside.
\<close>

function scan_key :: "char list \<Rightarrow> nat \<Rightarrow> key_scan" where
  "scan_key buf kend =
     (if kend < length buf then
        (if is_key_end (buf ! kend) then KeyEnd buf kend
         else if buf ! kend = NUL then KeyReturn Aborted
         else if is_upper (buf ! kend) then scan_key (buf[kend := to_lower (buf ! kend)]) (kend + 1)
         else if not_key_char (buf ! kend)
         then (if kend + 1 < length buf then KeyReturn Aborted else KeyReturn OutOfBounds)
         else scan_key buf (kend + 1))
      else KeyEnd buf kend)"
  by pat_completeness auto
termination
  by (relation "measure (\<lambda>(buf, kend). length buf - kend)") auto

text \<open>\<open>while (ofs < file_size && (buf[ofs] == ' ' || buf[ofs] == '\t')) ++ofs\<close>.\<close>

function skip_blanks :: "char list \<Rightarrow> nat \<Rightarrow> nat" where
  "skip_blanks buf ofs =
     (if ofs < length buf \<and> is_blank (buf ! ofs) then skip_blanks buf (ofs + 1) else ofs)"
  by pat_completeness auto
termination
  by (relation "measure (\<lambda>(buf, ofs). length buf - ofs)") auto

text \<open>The delimiter after the key; \<open>None\<close> is the return after the warning.\<close>

definition skip_delimiter :: "char list \<Rightarrow> nat \<Rightarrow> (char list \<times> nat) option" where
  "skip_delimiter buf kend =
     (if buf ! kend = CHR ''='' \<or> buf ! kend = CHR '','' then Some (buf[kend := NUL], kend + 1)
      else
        let buf1 = buf[kend := NUL];
            ofs = skip_blanks buf1 (kend + 1)
        in if ofs = length buf1 \<or> (buf1 ! ofs \<noteq> CHR ''='' \<and> buf1 ! ofs \<noteq> CHR '','') then None
           else Some (buf1[ofs := NUL], ofs + 1))"

text \<open>The value loop \<open>for (vend = ofs; vend < file_size; ++vend)\<close>.\<close>

function scan_value :: "char list \<Rightarrow> nat \<Rightarrow> char list \<times> nat" where
  "scan_value buf vend =
     (if vend < length buf then
        (if is_value_end (buf ! vend) then (buf[vend := NUL], vend)
         else scan_value buf (vend + 1))
      else (buf, vend))"
  by pat_completeness auto
termination
  by (relation "measure (\<lambda>(buf, vend). length buf - vend)") auto

declare scan_key.simps [simp del] skip_blanks.simps [simp del] scan_value.simps [simp del]

text \<open>
  The \<open>while (ofs < file_size)\<close> loop of \<open>ProcessKeyValueFile\<close>, from the state
  \<open>(buf, ofs)\<close>; \<open>file_size\<close> is the length of the buffer, as in \<open>LoadKeyValueFile\<close>.
\<close>

function pkvf_loop ::
  "(char list \<Rightarrow> nat \<Rightarrow> nat \<Rightarrow> 's \<Rightarrow> 's) \<Rightarrow> char list \<Rightarrow> nat \<Rightarrow> warning list \<times> 's
     \<Rightarrow> (warning list \<times> 's) \<times> stop" where
  "pkvf_loop f buf ofs st =
     (if ofs < length buf then
        (if is_filler (buf ! ofs) then pkvf_loop f buf (ofs + 1) st
         else
           (case scan_key buf ofs of
              KeyReturn how \<Rightarrow> ((fst st @ [MalformedKey], snd st), how)
            | KeyEnd buf1 kend \<Rightarrow>
                if kend = length buf1 then ((fst st @ [TruncatedPair], snd st), OutOfBounds)
                else
                  (case skip_delimiter buf1 kend of
                     None \<Rightarrow> ((fst st @ [MalformedPair], snd st), Aborted)
                   | Some (buf2, ofs2) \<Rightarrow>
                       if buf2 ! ofs = NUL then ((fst st @ [EmptyKey], snd st), Aborted)
                       else
                         let ofs3 = skip_blanks buf2 ofs2
                         in if ofs3 = length buf2
                            then ((fst st @ [MissingValue], snd st), Aborted)
                            else
                              (case scan_value buf2 ofs3 of
                                 (buf3, vend) \<Rightarrow>
                                   (case ProcessKeyValue f buf3 ofs ofs3 st of
                                      None \<Rightarrow> (st, OutOfBounds)
                                    | Some st' \<Rightarrow> pkvf_loop f buf3 vend st')))))
      else (st, Finished))"
  by pat_completeness auto

text \<open>
  Termination: every scan moves forward and keeps the length of the buffer, and the
  delimiter code moves at least one character on, so each cycle of the loop ends at a
  larger offset.
\<close>

termination
proof (relation "measure (\<lambda>(f, buf, ofs, st). length buf - ofs)", goal_cases)
  case 1
  show ?case by simp
next
  case 2
  then show ?case by simp
next
  case (3 f buf ofs st buf1 kend d buf2 ofs2 ofs3 buf3 vend st')
  have key_end: "ofs \<le> kend \<and> length buf' = length buf"
    if "scan_key buf ofs = KeyEnd buf' kend" for buf ofs buf' kend
    using that
  proof (induction buf ofs rule: scan_key.induct)
    case (1 buf k)
    from "1.prems" "1.IH" show ?case
      by (simp add: scan_key.simps [of buf k] split: if_splits)
  qed
  have blanks: "ofs \<le> skip_blanks buf ofs" for buf ofs
  proof (induction buf ofs rule: skip_blanks.induct)
    case (1 buf ofs)
    then show ?case
      by (auto simp: skip_blanks.simps [of buf ofs] dest: Suc_leD)
  qed
  have value_end: "ofs \<le> vend \<and> length buf' = length buf"
    if "scan_value buf ofs = (buf', vend)" for buf ofs buf' vend
    using that
  proof (induction buf ofs rule: scan_value.induct)
    case (1 buf k)
    from "1.prems" "1.IH" show ?case
      by (auto simp: scan_value.simps [of buf k] split: if_splits)
  qed
  have delimiter: "kend < ofs \<and> length buf' = length buf"
    if "skip_delimiter buf kend = Some (buf', ofs)" for buf kend buf' ofs
    using that blanks [of "Suc kend" "buf[kend := NUL]"]
    by (auto simp: skip_delimiter_def Let_def split: if_splits)
  from 3 have a: "ofs \<le> kend \<and> length buf1 = length buf"
    by (intro key_end) simp
  from 3 have b: "kend < ofs2 \<and> length buf2 = length buf1"
    by (intro delimiter) simp
  from 3 have c: "ofs2 \<le> ofs3"
    by (simp add: blanks)
  from 3 have e: "ofs3 \<le> vend \<and> length buf3 = length buf2"
    by (intro value_end) simp
  from 3 have "ofs < length buf"
    by simp
  with a b c e show ?case
    by auto
qed

declare pkvf_loop.simps [simp del]

definition ProcessKeyValueFile ::
  "(char list \<Rightarrow> nat \<Rightarrow> nat \<Rightarrow> 's \<Rightarrow> 's) \<Rightarrow> char list \<Rightarrow> 's \<Rightarrow> (warning list \<times> 's) \<times> stop" where
  "ProcessKeyValueFile f buf s = pkvf_loop f buf 0 ([], s)"


text \<open>
  A callback that records the pairs it is handed, as the C strings at \<open>key\<close> and \<open>value\<close>
  when it is called.
\<close>

definition collect ::
  "char list \<Rightarrow> nat \<Rightarrow> nat \<Rightarrow> (string \<times> string) list \<Rightarrow> (string \<times> string) list" where
  "collect mem key val acc = acc @ [(cstr mem key, cstr mem val)]"

subsection \<open>Token shapes\<close>




definition nul_head :: "char list \<Rightarrow> char list" where
  "nul_head sp = (case sp of [] \<Rightarrow> [] | b # bs \<Rightarrow> NUL # bs)"

subsection \<open>Sample title-key input\<close>

text \<open>
  Modelled from the spec: the Title-Key Manager is a mapping from rights identifier to
  access key in which the last write wins; its code is outside these sources. Here it is
  an association list that \<open>Register\<close> extends at the front.
\<close>

definition km_register :: "(bytes \<times> bytes) list \<Rightarrow> bytes \<Rightarrow> bytes \<Rightarrow> (bytes \<times> bytes) list" where
  "km_register km rights_id access_key = (rights_id, access_key) # km"

text \<open>
  A title-key file of two lines, the first with a value of four characters, and the
  buffer as the parser has rewritten it when it calls back for the first line: the rights
  identifier folded to lowercase at offset 0, the value at offset 33, both terminated, and
  the second line behind them.
\<close>

definition titlekey_file :: "char list" where
  "titlekey_file = ''0123456789abcdef0123456789ABCDEF=a1B2'' @ [CHR 0x0A]
      @ ''fedcba98765432100123456789abcdef=00112233445566778899aabbccddeeff'' @ [CHR 0x0A]"

definition titlekey_buffer :: "char list" where
  "titlekey_buffer = ''0123456789abcdef0123456789abcdef'' @ [NUL] @ ''a1B2'' @ [NUL]
      @ ''fedcba98765432100123456789abcdef=00112233445566778899aabbccddeeff'' @ [CHR 0x0A]"

text \<open>
  A title-key file of one line whose value has four characters, and the buffer as the
  parser has rewritten it when it calls back: the value at offset 33 with its terminator
  as the last byte of the buffer.
\<close>

definition short_value_file :: "char list" where
  "short_value_file = ''0123456789abcdef0123456789abcdef=a1b2'' @ [CHR 0x0A]"

definition short_value_buffer :: "char list" where
  "short_value_buffer = ''0123456789abcdef0123456789abcdef'' @ [NUL] @ ''a1b2'' @ [NUL]"

text \<open>The same with a rights identifier of 31 characters.\<close>

definition short_id_buffer :: "char list" where
  "short_id_buffer = ''0123456789abcdef0123456789ABCDE'' @ [NUL]
      @ ''00112233445566778899aabbccddeeff'' @ [NUL]"


section \<open>Properties of the derivation engine\<close>

lemma derived_only_refl: "derived_only ks ks"
  by (simp add: derived_only_def)

lemma derived_only_trans:
  assumes "derived_only a b" and "derived_only b c"
  shows "derived_only a c"
proof -
  have "c = b\<lparr>keyblob_keys := keyblob_keys c, keyblob_mac_keys := keyblob_mac_keys c,
               device_key := device_key c, package1_keys := package1_keys c,
               master_keks := master_keks c, master_keys := master_keys c\<rparr>"
    using assms(2) by (simp add: derived_only_def)
  also have "b = a\<lparr>keyblob_keys := keyblob_keys b, keyblob_mac_keys := keyblob_mac_keys b,
               device_key := device_key b, package1_keys := package1_keys b,
               master_keks := master_keks b, master_keys := master_keys b\<rparr>"
    using assms(1) by (simp add: derived_only_def)
  finally show ?thesis
    by (simp add: derived_only_def)
qed

lemma derived_only_fold:
  assumes "\<And>x ks. derived_only ks (f x ks)"
  shows "derived_only ks (fold f xs ks)"
proof (induction xs arbitrary: ks)
  case Nil
  show ?case by (simp add: derived_only_refl)
next
  case (Cons x xs)
  have "derived_only ks (f x ks)" by (rule assms)
  moreover have "derived_only (f x ks) (fold f xs (f x ks))" by (rule Cons.IH)
  ultimately show ?case
    by (simp add: derived_only_trans)
qed

lemma derived_only_steps:
  "derived_only ks (derive_keyblob_keys dec kg gen ks)"
  "derived_only ks (decrypt_keyblobs kg gen ks)"
  "derived_only ks (set_keys_via_keyblobs gen ks)"
  "derived_only ks (derive_via_tsec kg gen ks)"
  "derived_only ks (derive_master_keks_mariko dec gen ks)"
  "derived_only ks (derive_master_keys dec gen ks)"
  by (simp_all add: derived_only_def derive_keyblob_keys_def decrypt_keyblobs_def
      set_keys_via_keyblobs_def derive_via_tsec_def derive_master_keks_mariko_def
      derive_master_keys_def Let_def)

lemma derived_only_DeriveKeys: "derived_only ks (DeriveKeys dec kg ks)"
  unfolding DeriveKeys_def Let_def
  by (intro derived_only_trans [OF _ derived_only_fold] derived_only_fold derived_only_steps)


lemma fold_inv:
  assumes "\<And>x ks. P (f x ks) = P ks"
  shows "P (fold f xs ks) = P ks"
  by (induction xs arbitrary: ks) (simp_all add: assms)

lemma fold_slot:
  assumes step: "\<And>x ks. sel (f x ks) g = (if g = x \<and> C ks then V ks else sel ks g)"
    and C: "\<And>x ks. C (f x ks) = C ks"
    and V: "\<And>x ks. V (f x ks) = V ks"
  shows "sel (fold f xs ks) g = (if g \<in> set xs \<and> C ks then V ks else sel ks g)"
proof (induction xs arbitrary: ks)
  case Nil
  show ?case by simp
next
  case (Cons x xs)
  have "sel (fold f (x # xs) ks) g = sel (fold f xs (f x ks)) g"
    by simp
  also have "\<dots> = (if g \<in> set xs \<and> C (f x ks) then V (f x ks) else sel (f x ks) g)"
    by (rule Cons.IH)
  also have "\<dots> = (if g \<in> set (x # xs) \<and> C ks then V ks else sel ks g)"
    unfolding step [of x ks] C V by (cases "g = x") simp_all
  finally show ?case .
qed

lemma keyblob_step_inputs [simp]:
  "secure_boot_key (derive_keyblob_keys dec kg gen ks) = secure_boot_key ks"
  "tsec_key (derive_keyblob_keys dec kg gen ks) = tsec_key ks"
  "keyblob_key_sources (derive_keyblob_keys dec kg gen ks) = keyblob_key_sources ks"
  "keyblob_mac_key_source (derive_keyblob_keys dec kg gen ks) = keyblob_mac_key_source ks"
  "per_console_key_source (derive_keyblob_keys dec kg gen ks) = per_console_key_source ks"
  "keyblobs (derive_keyblob_keys dec kg gen ks) = keyblobs ks"
  "mariko_kek (derive_keyblob_keys dec kg gen ks) = mariko_kek ks"
  "mariko_master_kek_sources (derive_keyblob_keys dec kg gen ks) = mariko_master_kek_sources ks"
  "master_key_source (derive_keyblob_keys dec kg gen ks) = master_key_source ks"
  "package1_keys (derive_keyblob_keys dec kg gen ks) = package1_keys ks"
  "master_keks (derive_keyblob_keys dec kg gen ks) = master_keks ks"
  "master_keys (derive_keyblob_keys dec kg gen ks) = master_keys ks"
  by (simp_all add: derive_keyblob_keys_def Let_def)

lemma keyblob_step_keyblob_keys:
  "keyblob_keys (derive_keyblob_keys dec kg gen ks) g =
     (if g = gen \<and> (\<not> IsZero (secure_boot_key ks) \<and> \<not> IsZero (tsec_key ks)
                    \<and> \<not> IsZero (keyblob_key_sources ks g))
      then dec (secure_boot_key ks) (dec (tsec_key ks) (keyblob_key_sources ks g))
      else keyblob_keys ks g)"
  by (auto simp: derive_keyblob_keys_def Let_def)

lemma keyblob_step_keyblob_mac_keys:
  "keyblob_mac_keys (derive_keyblob_keys dec kg gen ks) g =
     (if g = gen \<and> (\<not> IsZero (secure_boot_key ks) \<and> \<not> IsZero (tsec_key ks)
                    \<and> \<not> IsZero (keyblob_key_sources ks g) \<and> \<not> IsZero (keyblob_mac_key_source ks))
      then dec (dec (secure_boot_key ks) (dec (tsec_key ks) (keyblob_key_sources ks g)))
               (keyblob_mac_key_source ks)
      else keyblob_mac_keys ks g)"
  by (auto simp: derive_keyblob_keys_def Let_def)

lemma keyblob_step_device_key:
  "(\<lambda>ks _. device_key ks) (derive_keyblob_keys dec kg gen ks) (KeyGeneration_1_0_0 kg) =
     (if KeyGeneration_1_0_0 kg = gen \<and> (\<not> IsZero (secure_boot_key ks) \<and> \<not> IsZero (tsec_key ks)
                    \<and> \<not> IsZero (keyblob_key_sources ks (KeyGeneration_1_0_0 kg))
                    \<and> \<not> IsZero (keyblob_mac_key_source ks)
                    \<and> \<not> IsZero (per_console_key_source ks))
      then dec (dec (secure_boot_key ks) (dec (tsec_key ks)
                  (keyblob_key_sources ks (KeyGeneration_1_0_0 kg))))
               (per_console_key_source ks)
      else (\<lambda>ks _. device_key ks) ks (KeyGeneration_1_0_0 kg))"
  by (auto simp: derive_keyblob_keys_def Let_def)

lemma fold_keyblob_keys:
  "keyblob_keys (fold (derive_keyblob_keys dec kg) xs ks) g =
     (if g \<in> set xs \<and> (\<not> IsZero (secure_boot_key ks) \<and> \<not> IsZero (tsec_key ks)
                    \<and> \<not> IsZero (keyblob_key_sources ks g))
      then dec (secure_boot_key ks) (dec (tsec_key ks) (keyblob_key_sources ks g))
      else keyblob_keys ks g)"
  by (rule fold_slot [where sel = keyblob_keys, OF keyblob_step_keyblob_keys]) simp_all

lemma fold_keyblob_mac_keys:
  "keyblob_mac_keys (fold (derive_keyblob_keys dec kg) xs ks) g =
     (if g \<in> set xs \<and> (\<not> IsZero (secure_boot_key ks) \<and> \<not> IsZero (tsec_key ks)
                    \<and> \<not> IsZero (keyblob_key_sources ks g) \<and> \<not> IsZero (keyblob_mac_key_source ks))
      then dec (dec (secure_boot_key ks) (dec (tsec_key ks) (keyblob_key_sources ks g)))
               (keyblob_mac_key_source ks)
      else keyblob_mac_keys ks g)"
  by (rule fold_slot [where sel = keyblob_mac_keys, OF keyblob_step_keyblob_mac_keys]) simp_all

lemma fold_device_key:
  "device_key (fold (derive_keyblob_keys dec kg) xs ks) =
     (if KeyGeneration_1_0_0 kg \<in> set xs \<and> (\<not> IsZero (secure_boot_key ks) \<and> \<not> IsZero (tsec_key ks)
                    \<and> \<not> IsZero (keyblob_key_sources ks (KeyGeneration_1_0_0 kg))
                    \<and> \<not> IsZero (keyblob_mac_key_source ks)
                    \<and> \<not> IsZero (per_console_key_source ks))
      then dec (dec (secure_boot_key ks) (dec (tsec_key ks)
                  (keyblob_key_sources ks (KeyGeneration_1_0_0 kg))))
               (per_console_key_source ks)
      else device_key ks)"
  using fold_slot [where sel = "\<lambda>ks _. device_key ks" and f = "derive_keyblob_keys dec kg"
      and g = "KeyGeneration_1_0_0 kg", OF keyblob_step_device_key, of xs ks]
  by simp

lemma fold_keyblob_step_inputs [simp]:
  "secure_boot_key (fold (derive_keyblob_keys dec kg) xs ks) = secure_boot_key ks"
  "tsec_key (fold (derive_keyblob_keys dec kg) xs ks) = tsec_key ks"
  "keyblob_key_sources (fold (derive_keyblob_keys dec kg) xs ks) = keyblob_key_sources ks"
  "keyblob_mac_key_source (fold (derive_keyblob_keys dec kg) xs ks) = keyblob_mac_key_source ks"
  "per_console_key_source (fold (derive_keyblob_keys dec kg) xs ks) = per_console_key_source ks"
  "keyblobs (fold (derive_keyblob_keys dec kg) xs ks) = keyblobs ks"
  "mariko_kek (fold (derive_keyblob_keys dec kg) xs ks) = mariko_kek ks"
  "mariko_master_kek_sources (fold (derive_keyblob_keys dec kg) xs ks) = mariko_master_kek_sources ks"
  "master_key_source (fold (derive_keyblob_keys dec kg) xs ks) = master_key_source ks"
  "package1_keys (fold (derive_keyblob_keys dec kg) xs ks) = package1_keys ks"
  "master_keks (fold (derive_keyblob_keys dec kg) xs ks) = master_keks ks"
  "master_keys (fold (derive_keyblob_keys dec kg) xs ks) = master_keys ks"
  by (induction xs arbitrary: ks) simp_all

lemma via_keyblobs_step_inputs [simp]:
  "secure_boot_key (set_keys_via_keyblobs gen ks) = secure_boot_key ks"
  "tsec_key (set_keys_via_keyblobs gen ks) = tsec_key ks"
  "keyblob_key_sources (set_keys_via_keyblobs gen ks) = keyblob_key_sources ks"
  "keyblob_mac_key_source (set_keys_via_keyblobs gen ks) = keyblob_mac_key_source ks"
  "per_console_key_source (set_keys_via_keyblobs gen ks) = per_console_key_source ks"
  "keyblobs (set_keys_via_keyblobs gen ks) = keyblobs ks"
  "mariko_kek (set_keys_via_keyblobs gen ks) = mariko_kek ks"
  "mariko_master_kek_sources (set_keys_via_keyblobs gen ks) = mariko_master_kek_sources ks"
  "master_key_source (set_keys_via_keyblobs gen ks) = master_key_source ks"
  "keyblob_keys (set_keys_via_keyblobs gen ks) = keyblob_keys ks"
  "keyblob_mac_keys (set_keys_via_keyblobs gen ks) = keyblob_mac_keys ks"
  "device_key (set_keys_via_keyblobs gen ks) = device_key ks"
  "master_keys (set_keys_via_keyblobs gen ks) = master_keys ks"
  by (simp_all add: set_keys_via_keyblobs_def Let_def)

lemma fold_via_keyblobs_inputs [simp]:
  "secure_boot_key (fold (set_keys_via_keyblobs) xs ks) = secure_boot_key ks"
  "tsec_key (fold (set_keys_via_keyblobs) xs ks) = tsec_key ks"
  "keyblob_key_sources (fold (set_keys_via_keyblobs) xs ks) = keyblob_key_sources ks"
  "keyblob_mac_key_source (fold (set_keys_via_keyblobs) xs ks) = keyblob_mac_key_source ks"
  "per_console_key_source (fold (set_keys_via_keyblobs) xs ks) = per_console_key_source ks"
  "keyblobs (fold (set_keys_via_keyblobs) xs ks) = keyblobs ks"
  "mariko_kek (fold (set_keys_via_keyblobs) xs ks) = mariko_kek ks"
  "mariko_master_kek_sources (fold (set_keys_via_keyblobs) xs ks) = mariko_master_kek_sources ks"
  "master_key_source (fold (set_keys_via_keyblobs) xs ks) = master_key_source ks"
  "keyblob_keys (fold (set_keys_via_keyblobs) xs ks) = keyblob_keys ks"
  "keyblob_mac_keys (fold (set_keys_via_keyblobs) xs ks) = keyblob_mac_keys ks"
  "device_key (fold (set_keys_via_keyblobs) xs ks) = device_key ks"
  "master_keys (fold (set_keys_via_keyblobs) xs ks) = master_keys ks"
  by (induction xs arbitrary: ks) simp_all

lemma mariko_step_inputs [simp]:
  "secure_boot_key (derive_master_keks_mariko dec gen ks) = secure_boot_key ks"
  "tsec_key (derive_master_keks_mariko dec gen ks) = tsec_key ks"
  "keyblob_key_sources (derive_master_keks_mariko dec gen ks) = keyblob_key_sources ks"
  "keyblob_mac_key_source (derive_master_keks_mariko dec gen ks) = keyblob_mac_key_source ks"
  "per_console_key_source (derive_master_keks_mariko dec gen ks) = per_console_key_source ks"
  "keyblobs (derive_master_keks_mariko dec gen ks) = keyblobs ks"
  "mariko_kek (derive_master_keks_mariko dec gen ks) = mariko_kek ks"
  "mariko_master_kek_sources (derive_master_keks_mariko dec gen ks) = mariko_master_kek_sources ks"
  "master_key_source (derive_master_keks_mariko dec gen ks) = master_key_source ks"
  "keyblob_keys (derive_master_keks_mariko dec gen ks) = keyblob_keys ks"
  "keyblob_mac_keys (derive_master_keks_mariko dec gen ks) = keyblob_mac_keys ks"
  "device_key (derive_master_keks_mariko dec gen ks) = device_key ks"
  "package1_keys (derive_master_keks_mariko dec gen ks) = package1_keys ks"
  "master_keys (derive_master_keks_mariko dec gen ks) = master_keys ks"
  by (simp_all add: derive_master_keks_mariko_def)

lemma fold_mariko_inputs [simp]:
  "secure_boot_key (fold (derive_master_keks_mariko dec) xs ks) = secure_boot_key ks"
  "tsec_key (fold (derive_master_keks_mariko dec) xs ks) = tsec_key ks"
  "keyblob_key_sources (fold (derive_master_keks_mariko dec) xs ks) = keyblob_key_sources ks"
  "keyblob_mac_key_source (fold (derive_master_keks_mariko dec) xs ks) = keyblob_mac_key_source ks"
  "per_console_key_source (fold (derive_master_keks_mariko dec) xs ks) = per_console_key_source ks"
  "keyblobs (fold (derive_master_keks_mariko dec) xs ks) = keyblobs ks"
  "mariko_kek (fold (derive_master_keks_mariko dec) xs ks) = mariko_kek ks"
  "mariko_master_kek_sources (fold (derive_master_keks_mariko dec) xs ks) = mariko_master_kek_sources ks"
  "master_key_source (fold (derive_master_keks_mariko dec) xs ks) = master_key_source ks"
  "keyblob_keys (fold (derive_master_keks_mariko dec) xs ks) = keyblob_keys ks"
  "keyblob_mac_keys (fold (derive_master_keks_mariko dec) xs ks) = keyblob_mac_keys ks"
  "device_key (fold (derive_master_keks_mariko dec) xs ks) = device_key ks"
  "package1_keys (fold (derive_master_keks_mariko dec) xs ks) = package1_keys ks"
  "master_keys (fold (derive_master_keks_mariko dec) xs ks) = master_keys ks"
  by (induction xs arbitrary: ks) simp_all

lemma master_keys_step_inputs [simp]:
  "secure_boot_key (derive_master_keys dec gen ks) = secure_boot_key ks"
  "tsec_key (derive_master_keys dec gen ks) = tsec_key ks"
  "keyblob_key_sources (derive_master_keys dec gen ks) = keyblob_key_sources ks"
  "keyblob_mac_key_source (derive_master_keys dec gen ks) = keyblob_mac_key_source ks"
  "per_console_key_source (derive_master_keys dec gen ks) = per_console_key_source ks"
  "keyblobs (derive_master_keys dec gen ks) = keyblobs ks"
  "mariko_kek (derive_master_keys dec gen ks) = mariko_kek ks"
  "mariko_master_kek_sources (derive_master_keys dec gen ks) = mariko_master_kek_sources ks"
  "master_key_source (derive_master_keys dec gen ks) = master_key_source ks"
  "keyblob_keys (derive_master_keys dec gen ks) = keyblob_keys ks"
  "keyblob_mac_keys (derive_master_keys dec gen ks) = keyblob_mac_keys ks"
  "device_key (derive_master_keys dec gen ks) = device_key ks"
  "package1_keys (derive_master_keys dec gen ks) = package1_keys ks"
  "master_keks (derive_master_keys dec gen ks) = master_keks ks"
  by (simp_all add: derive_master_keys_def)

lemma fold_master_keys_inputs [simp]:
  "secure_boot_key (fold (derive_master_keys dec) xs ks) = secure_boot_key ks"
  "tsec_key (fold (derive_master_keys dec) xs ks) = tsec_key ks"
  "keyblob_key_sources (fold (derive_master_keys dec) xs ks) = keyblob_key_sources ks"
  "keyblob_mac_key_source (fold (derive_master_keys dec) xs ks) = keyblob_mac_key_source ks"
  "per_console_key_source (fold (derive_master_keys dec) xs ks) = per_console_key_source ks"
  "keyblobs (fold (derive_master_keys dec) xs ks) = keyblobs ks"
  "mariko_kek (fold (derive_master_keys dec) xs ks) = mariko_kek ks"
  "mariko_master_kek_sources (fold (derive_master_keys dec) xs ks) = mariko_master_kek_sources ks"
  "master_key_source (fold (derive_master_keys dec) xs ks) = master_key_source ks"
  "keyblob_keys (fold (derive_master_keys dec) xs ks) = keyblob_keys ks"
  "keyblob_mac_keys (fold (derive_master_keys dec) xs ks) = keyblob_mac_keys ks"
  "device_key (fold (derive_master_keys dec) xs ks) = device_key ks"
  "package1_keys (fold (derive_master_keys dec) xs ks) = package1_keys ks"
  "master_keks (fold (derive_master_keys dec) xs ks) = master_keks ks"
  by (induction xs arbitrary: ks) simp_all


lemma fold_decrypt_keyblobs [simp]: "fold (decrypt_keyblobs kg) xs ks = ks"
  by (induction xs) (simp_all add: decrypt_keyblobs_def)

lemma fold_derive_via_tsec [simp]: "fold (derive_via_tsec kg) xs ks = ks"
  by (induction xs) (simp_all add: derive_via_tsec_def)

lemma via_keyblobs_step_package1_keys:
  "package1_keys (set_keys_via_keyblobs gen ks) g =
     (if g = gen \<and> \<not> IsZero (take AesKeySize (drop 0x80 (keyblobs ks g)))
      then take AesKeySize (drop 0x80 (keyblobs ks g)) else package1_keys ks g)"
  by (auto simp: set_keys_via_keyblobs_def Let_def)

lemma via_keyblobs_step_master_keks:
  "master_keks (set_keys_via_keyblobs gen ks) g =
     (if g = gen \<and> \<not> IsZero (take AesKeySize (keyblobs ks g))
      then take AesKeySize (keyblobs ks g) else master_keks ks g)"
  by (auto simp: set_keys_via_keyblobs_def Let_def)

lemma fold_package1_keys:
  "package1_keys (fold set_keys_via_keyblobs xs ks) g =
     (if g \<in> set xs \<and> \<not> IsZero (take AesKeySize (drop 0x80 (keyblobs ks g)))
      then take AesKeySize (drop 0x80 (keyblobs ks g)) else package1_keys ks g)"
  by (rule fold_slot [where sel = package1_keys, OF via_keyblobs_step_package1_keys]) simp_all

lemma fold_via_keyblobs_master_keks:
  "master_keks (fold set_keys_via_keyblobs xs ks) g =
     (if g \<in> set xs \<and> \<not> IsZero (take AesKeySize (keyblobs ks g))
      then take AesKeySize (keyblobs ks g) else master_keks ks g)"
  by (rule fold_slot [where sel = master_keks, OF via_keyblobs_step_master_keks]) simp_all

lemma mariko_step_master_keks:
  "master_keks (derive_master_keks_mariko dec gen ks) g =
     (if g = gen \<and> (\<not> IsZero (mariko_kek ks) \<and> \<not> IsZero (mariko_master_kek_sources ks g))
      then dec (mariko_kek ks) (mariko_master_kek_sources ks g) else master_keks ks g)"
  by (auto simp: derive_master_keks_mariko_def)

lemma fold_mariko_master_keks:
  "master_keks (fold (derive_master_keks_mariko dec) xs ks) g =
     (if g \<in> set xs \<and> (\<not> IsZero (mariko_kek ks) \<and> \<not> IsZero (mariko_master_kek_sources ks g))
      then dec (mariko_kek ks) (mariko_master_kek_sources ks g) else master_keks ks g)"
  by (rule fold_slot [where sel = master_keks, OF mariko_step_master_keks]) simp_all

lemma master_keys_step_master_keys:
  "master_keys (derive_master_keys dec gen ks) g =
     (if g = gen \<and> (\<not> IsZero (master_key_source ks) \<and> \<not> IsZero (master_keks ks g))
      then dec (master_keks ks g) (master_key_source ks) else master_keys ks g)"
  by (auto simp: derive_master_keys_def)

lemma fold_master_keys:
  "master_keys (fold (derive_master_keys dec) xs ks) g =
     (if g \<in> set xs \<and> (\<not> IsZero (master_key_source ks) \<and> \<not> IsZero (master_keks ks g))
      then dec (master_keks ks g) (master_key_source ks) else master_keys ks g)"
  by (rule fold_slot [where sel = master_keys, OF master_keys_step_master_keys]) simp_all

lemma DeriveKeys_keyblob_keys:
  "keyblob_keys (DeriveKeys dec kg ks) g =
     (if KeyGeneration_1_0_0 kg \<le> g \<and> g < KeyGeneration_6_2_0 kg
         \<and> \<not> IsZero (secure_boot_key ks) \<and> \<not> IsZero (tsec_key ks)
         \<and> \<not> IsZero (keyblob_key_sources ks g)
      then dec (secure_boot_key ks) (dec (tsec_key ks) (keyblob_key_sources ks g))
      else keyblob_keys ks g)"
  by (simp add: DeriveKeys_def Let_def fold_keyblob_keys)

lemma DeriveKeys_keyblob_mac_keys:
  "keyblob_mac_keys (DeriveKeys dec kg ks) g =
     (if KeyGeneration_1_0_0 kg \<le> g \<and> g < KeyGeneration_6_2_0 kg
         \<and> \<not> IsZero (secure_boot_key ks) \<and> \<not> IsZero (tsec_key ks)
         \<and> \<not> IsZero (keyblob_key_sources ks g) \<and> \<not> IsZero (keyblob_mac_key_source ks)
      then dec (dec (secure_boot_key ks) (dec (tsec_key ks) (keyblob_key_sources ks g)))
               (keyblob_mac_key_source ks)
      else keyblob_mac_keys ks g)"
  by (simp add: DeriveKeys_def Let_def fold_keyblob_mac_keys)

lemma DeriveKeys_device_key:
  "device_key (DeriveKeys dec kg ks) =
     (if KeyGeneration_1_0_0 kg < KeyGeneration_6_2_0 kg
         \<and> \<not> IsZero (secure_boot_key ks) \<and> \<not> IsZero (tsec_key ks)
         \<and> \<not> IsZero (keyblob_key_sources ks (KeyGeneration_1_0_0 kg))
         \<and> \<not> IsZero (keyblob_mac_key_source ks) \<and> \<not> IsZero (per_console_key_source ks)
      then dec (dec (secure_boot_key ks) (dec (tsec_key ks)
                  (keyblob_key_sources ks (KeyGeneration_1_0_0 kg))))
               (per_console_key_source ks)
      else device_key ks)"
  by (simp add: DeriveKeys_def Let_def fold_device_key)

lemma DeriveKeys_package1_keys:
  "package1_keys (DeriveKeys dec kg ks) g =
     (if KeyGeneration_1_0_0 kg \<le> g \<and> g < KeyGeneration_6_2_0 kg
         \<and> \<not> IsZero (take AesKeySize (drop 0x80 (keyblobs ks g)))
      then take AesKeySize (drop 0x80 (keyblobs ks g)) else package1_keys ks g)"
  by (simp add: DeriveKeys_def Let_def fold_package1_keys)

lemma DeriveKeys_master_keks:
  "master_keks (DeriveKeys dec kg ks) g =
     (if KeyGeneration_1_0_0 kg \<le> g \<and> g < KeyGeneration_Max kg
         \<and> \<not> IsZero (mariko_kek ks) \<and> \<not> IsZero (mariko_master_kek_sources ks g)
      then dec (mariko_kek ks) (mariko_master_kek_sources ks g)
      else if KeyGeneration_1_0_0 kg \<le> g \<and> g < KeyGeneration_6_2_0 kg
         \<and> \<not> IsZero (take AesKeySize (keyblobs ks g))
      then take AesKeySize (keyblobs ks g)
      else master_keks ks g)"
  by (simp add: DeriveKeys_def Let_def fold_mariko_master_keks fold_via_keyblobs_master_keks)

lemma DeriveKeys_master_keys:
  "master_keys (DeriveKeys dec kg ks) g =
     (if KeyGeneration_1_0_0 kg \<le> g \<and> g < KeyGeneration_Max kg
         \<and> \<not> IsZero (master_key_source ks) \<and> \<not> IsZero (master_keks (DeriveKeys dec kg ks) g)
      then dec (master_keks (DeriveKeys dec kg ks) g) (master_key_source ks)
      else master_keys ks g)"
  by (simp add: DeriveKeys_def Let_def fold_master_keys)

lemma DeriveKeys_inputs:
  "secure_boot_key (DeriveKeys dec kg ks) = secure_boot_key ks"
  "tsec_key (DeriveKeys dec kg ks) = tsec_key ks"
  "keyblob_key_sources (DeriveKeys dec kg ks) = keyblob_key_sources ks"
  "keyblob_mac_key_source (DeriveKeys dec kg ks) = keyblob_mac_key_source ks"
  "per_console_key_source (DeriveKeys dec kg ks) = per_console_key_source ks"
  "keyblobs (DeriveKeys dec kg ks) = keyblobs ks"
  "mariko_kek (DeriveKeys dec kg ks) = mariko_kek ks"
  "mariko_master_kek_sources (DeriveKeys dec kg ks) = mariko_master_kek_sources ks"
  "master_key_source (DeriveKeys dec kg ks) = master_key_source ks"
  by (simp_all add: DeriveKeys_def Let_def)


lemma IsZero_replicate [simp]: "IsZero (replicate n 0)"
  by (induction n) simp_all

lemmas sample_defs = pkg1_generations_def g_keyset_def sample_cipher_def AesKeySize_def

text \<open>
  C1. For every generation \<open>gen\<close> in \<open>[KeyGeneration_1_0_0, KeyGeneration_6_2_0)\<close> for which
  \<open>secure_boot_key\<close>, \<open>tsec_key\<close> and \<open>keyblob_key_sources[gen]\<close> are all non-zero,
  \<open>DeriveKeys\<close> leaves in \<open>keyblob_keys[gen]\<close> the source decrypted first under \<open>tsec_key\<close>
  and then under \<open>secure_boot_key\<close>.
\<close>

theorem keyblob_key_double_decrypt:
  assumes "KeyGeneration_1_0_0 kg \<le> gen" and "gen < KeyGeneration_6_2_0 kg"
    and "\<not> IsZero (secure_boot_key ks)" and "\<not> IsZero (tsec_key ks)"
    and "\<not> IsZero (keyblob_key_sources ks gen)"
  shows "keyblob_keys (DeriveKeys dec kg ks) gen =
           dec (secure_boot_key ks) (dec (tsec_key ks) (keyblob_key_sources ks gen))"
  using assms by (simp add: DeriveKeys_keyblob_keys)

theorem keyblob_key_double_decrypt_witness:
  "KeyGeneration_1_0_0 pkg1_generations \<le> 0 \<and> 0 < KeyGeneration_6_2_0 pkg1_generations
   \<and> \<not> IsZero (secure_boot_key ks_legacy) \<and> \<not> IsZero (tsec_key ks_legacy)
   \<and> \<not> IsZero (keyblob_key_sources ks_legacy 0)
   \<and> keyblob_keys (DeriveKeys sample_cipher pkg1_generations ks_legacy) 0 =
       [0x13, 0x23, 0x33, 0x43, 0x53, 0x63, 0x73, 0x83, 0x93, 0xA3, 0xB3, 0xC3, 0xD3, 0xE3, 0xF3, 0x03]
   \<and> keyblob_keys (DeriveKeys sample_cipher pkg1_generations ks_legacy) 0 \<noteq>
       sample_cipher (tsec_key ks_legacy)
         (sample_cipher (secure_boot_key ks_legacy) (keyblob_key_sources ks_legacy 0))"
  using keyblob_key_double_decrypt [of pkg1_generations 0 ks_legacy sample_cipher]
  by (simp add: ks_legacy_def sample_defs)

text \<open>
  C2. For every generation \<open>gen\<close> in \<open>[KeyGeneration_1_0_0, KeyGeneration_Max)\<close> for which
  \<open>mariko_kek\<close> and \<open>mariko_master_kek_sources[gen]\<close> are both non-zero, \<open>master_keks[gen]\<close>
  is \<open>Decrypt(mariko_kek, mariko_master_kek_sources[gen])\<close> when \<open>DeriveKeys\<close> returns,
  whatever the keyblob loop stored in that slot before: the Mariko loop runs later and
  overwrites it.
\<close>

theorem mariko_master_kek_precedence:
  assumes "KeyGeneration_1_0_0 kg \<le> gen" and "gen < KeyGeneration_Max kg"
    and "\<not> IsZero (mariko_kek ks)" and "\<not> IsZero (mariko_master_kek_sources ks gen)"
  shows "master_keks (DeriveKeys dec kg ks) gen =
           dec (mariko_kek ks) (mariko_master_kek_sources ks gen)"
  using assms by (simp add: DeriveKeys_master_keks)

text \<open>
  On \<open>ks_mariko\<close> the keyblob of generation 0 carries a non-zero master kek, which the
  keyblob loop copies into the slot; the final value is the Mariko one.
\<close>

theorem mariko_master_kek_precedence_witness:
  "KeyGeneration_1_0_0 pkg1_generations \<le> 0 \<and> 0 < KeyGeneration_Max pkg1_generations
   \<and> \<not> IsZero (mariko_kek ks_mariko) \<and> \<not> IsZero (mariko_master_kek_sources ks_mariko 0)
   \<and> \<not> IsZero (take AesKeySize (keyblobs ks_mariko 0))
   \<and> master_keks (fold set_keys_via_keyblobs [0 ..< 6] ks_mariko) 0 =
       take AesKeySize (keyblobs ks_mariko 0)
   \<and> master_keks (DeriveKeys sample_cipher pkg1_generations ks_mariko) 0 =
       [0x53, 0x57, 0x5B, 0x5F, 0x63, 0x67, 0x6B, 0x6F, 0x73, 0x77, 0x7B, 0x7F, 0x83, 0x87, 0x8B, 0x8F]
   \<and> master_keks (DeriveKeys sample_cipher pkg1_generations ks_mariko) 0 \<noteq>
       take AesKeySize (keyblobs ks_mariko 0)"
  using mariko_master_kek_precedence [of pkg1_generations 0 ks_mariko sample_cipher]
  by (simp add: ks_mariko_def sample_defs fold_via_keyblobs_master_keks)

text \<open>
  C6, as the claim states it: stage S2 is skipped only when \<open>keyblob_mac_key_source\<close> is
  unset, so it runs on a keyblob key that a key file supplied. The code does not do that.
  On \<open>ks_file\<close> the keyblob key of generation 0 and the MAC key source are both set, and
  \<open>keyblob_mac_keys[0]\<close> stays all zero: the \<open>SKIP_IF_UNSET\<close> of \<open>secure_boot_key\<close> leaves
  the loop body before the MAC key is derived.
\<close>

theorem keyblob_mac_key_from_file_counterexample:
  "KeyGeneration_1_0_0 pkg1_generations \<le> 0 \<and> 0 < KeyGeneration_6_2_0 pkg1_generations
   \<and> \<not> IsZero (keyblob_mac_key_source ks_file)
   \<and> \<not> IsZero (keyblob_keys (DeriveKeys sample_cipher pkg1_generations ks_file) 0)
   \<and> IsZero (keyblob_mac_keys (DeriveKeys sample_cipher pkg1_generations ks_file) 0)
   \<and> keyblob_mac_keys (DeriveKeys sample_cipher pkg1_generations ks_file) 0 \<noteq>
       sample_cipher (keyblob_keys (DeriveKeys sample_cipher pkg1_generations ks_file) 0)
         (keyblob_mac_key_source ks_file)"
proof -
  let ?ks = "DeriveKeys sample_cipher pkg1_generations ks_file"
  have range: "KeyGeneration_1_0_0 pkg1_generations \<le> 0 \<and> 0 < KeyGeneration_6_2_0 pkg1_generations"
    by (simp add: pkg1_generations_def)
  have source: "\<not> IsZero (keyblob_mac_key_source ks_file)"
    by (simp add: ks_file_def sample_defs)
  have key: "\<not> IsZero (keyblob_keys ?ks 0)"
    by (simp add: DeriveKeys_keyblob_keys ks_file_def sample_defs)
  have unset: "IsZero (keyblob_mac_keys ?ks 0)"
    by (simp add: DeriveKeys_keyblob_mac_keys ks_file_def sample_defs)
  have "\<not> IsZero (sample_cipher (keyblob_keys ?ks 0) (keyblob_mac_key_source ks_file))"
    by (simp add: DeriveKeys_keyblob_keys ks_file_def sample_defs)
  with unset have "keyblob_mac_keys ?ks 0 \<noteq>
      sample_cipher (keyblob_keys ?ks 0) (keyblob_mac_key_source ks_file)"
    by auto
  with range source key unset show ?thesis
    by blast
qed

text \<open>
  C6, amended. For every generation \<open>gen\<close> in \<open>[KeyGeneration_1_0_0, KeyGeneration_6_2_0)\<close>:
  when \<open>secure_boot_key\<close>, \<open>tsec_key\<close>, \<open>keyblob_key_sources[gen]\<close> and
  \<open>keyblob_mac_key_source\<close> are all non-zero, \<open>keyblob_mac_keys[gen]\<close> is
  \<open>Decrypt(keyblob_keys[gen], keyblob_mac_key_source)\<close> with the keyblob key that stage S1
  derived in the same iteration; when any of the four is unset the stage is skipped and
  \<open>keyblob_mac_keys[gen]\<close> keeps its value, also when \<open>keyblob_keys[gen]\<close> came from a key
  file.
\<close>

theorem keyblob_mac_key_stage:
  assumes "KeyGeneration_1_0_0 kg \<le> gen" and "gen < KeyGeneration_6_2_0 kg"
  shows "keyblob_mac_keys (DeriveKeys dec kg ks) gen =
           (if \<not> IsZero (secure_boot_key ks) \<and> \<not> IsZero (tsec_key ks)
               \<and> \<not> IsZero (keyblob_key_sources ks gen) \<and> \<not> IsZero (keyblob_mac_key_source ks)
            then dec (keyblob_keys (DeriveKeys dec kg ks) gen) (keyblob_mac_key_source ks)
            else keyblob_mac_keys ks gen)"
  using assms by (simp add: DeriveKeys_keyblob_mac_keys DeriveKeys_keyblob_keys)

theorem keyblob_mac_key_stage_witness:
  "KeyGeneration_1_0_0 pkg1_generations \<le> 0 \<and> 0 < KeyGeneration_6_2_0 pkg1_generations
   \<and> keyblob_mac_keys (DeriveKeys sample_cipher pkg1_generations ks_legacy) 0 =
       sample_cipher (keyblob_keys (DeriveKeys sample_cipher pkg1_generations ks_legacy) 0)
         (keyblob_mac_key_source ks_legacy)
   \<and> keyblob_mac_keys (DeriveKeys sample_cipher pkg1_generations ks_legacy) 0 =
       [0x12, 0x21, 0x32, 0x41, 0x52, 0x61, 0x72, 0x81, 0x92, 0xA1, 0xB2, 0xC1, 0xD2, 0xE1, 0xF2, 0x01]
   \<and> keyblob_mac_keys (DeriveKeys sample_cipher pkg1_generations ks_file) 0 =
       keyblob_mac_keys ks_file 0"
  using keyblob_mac_key_stage [of pkg1_generations 0 sample_cipher ks_legacy]
    keyblob_mac_key_stage [of pkg1_generations 0 sample_cipher ks_file]
  by (simp add: DeriveKeys_keyblob_keys ks_legacy_def ks_file_def sample_defs)

text \<open>
  C7. If \<open>master_key_source\<close> is all zero when \<open>DeriveKeys\<close> runs, every slot
  \<open>master_keys[gen]\<close> is left as it was, whatever the other inputs are.
\<close>

theorem master_keys_untouched_without_source:
  assumes "IsZero (master_key_source ks)"
  shows "master_keys (DeriveKeys dec kg ks) = master_keys ks"
  using assms by (simp add: fun_eq_iff DeriveKeys_master_keys)

text \<open>
  On \<open>ks_no_source\<close> the master keks of generations 0 and 1 are available after the run
  (one derived on the Mariko path, one given), and no master key is derived from them.
\<close>

theorem master_keys_untouched_without_source_witness:
  "IsZero (master_key_source ks_no_source)
   \<and> \<not> IsZero (master_keks (DeriveKeys sample_cipher pkg1_generations ks_no_source) 0)
   \<and> \<not> IsZero (master_keks (DeriveKeys sample_cipher pkg1_generations ks_no_source) 1)
   \<and> master_keys (DeriveKeys sample_cipher pkg1_generations ks_no_source) =
       master_keys ks_no_source
   \<and> IsZero (master_keys (DeriveKeys sample_cipher pkg1_generations ks_no_source) 0)
   \<and> IsZero (master_keys (DeriveKeys sample_cipher pkg1_generations ks_no_source) 1)"
  using master_keys_untouched_without_source [of ks_no_source sample_cipher pkg1_generations]
  by (simp add: DeriveKeys_master_keks ks_no_source_def sample_defs)

text \<open>
  C8. For every registry, running \<open>DeriveKeys\<close> a second time on the result of a first run
  gives the registry of the first run: every slot the engine writes is a function of
  slots it never writes, or of slots it wrote earlier in the same run.
\<close>

theorem DeriveKeys_idempotent:
  "DeriveKeys dec kg (DeriveKeys dec kg ks) = DeriveKeys dec kg ks"
proof -
  let ?a = "DeriveKeys dec kg ks"
  let ?b = "DeriveKeys dec kg ?a"
  have kk: "keyblob_keys ?b = keyblob_keys ?a"
    by (rule ext) (simp add: DeriveKeys_keyblob_keys DeriveKeys_inputs)
  have kmk: "keyblob_mac_keys ?b = keyblob_mac_keys ?a"
    by (rule ext) (simp add: DeriveKeys_keyblob_mac_keys DeriveKeys_inputs)
  have dk: "device_key ?b = device_key ?a"
    by (simp add: DeriveKeys_device_key DeriveKeys_inputs)
  have p1: "package1_keys ?b = package1_keys ?a"
    by (rule ext) (simp add: DeriveKeys_package1_keys DeriveKeys_inputs)
  have mkek: "master_keks ?b = master_keks ?a"
    by (rule ext) (simp add: DeriveKeys_master_keks DeriveKeys_inputs)
  have mkey: "master_keys ?b = master_keys ?a"
  proof
    fix g
    show "master_keys ?b g = master_keys ?a g"
      unfolding DeriveKeys_master_keys [of dec kg ?a g] mkek DeriveKeys_inputs
      by (simp add: DeriveKeys_master_keys [of dec kg ks g])
  qed
  have "derived_only ?a ?b"
    by (rule derived_only_DeriveKeys)
  then have "?b = ?a\<lparr>keyblob_keys := keyblob_keys ?b, keyblob_mac_keys := keyblob_mac_keys ?b,
               device_key := device_key ?b, package1_keys := package1_keys ?b,
               master_keks := master_keks ?b, master_keys := master_keys ?b\<rparr>"
    by (simp add: derived_only_def)
  also have "\<dots> = ?a"
    unfolding kk kmk dk p1 mkek mkey by simp
  finally show ?thesis .
qed

text \<open>
  C9. \<open>DeriveKeys\<close> returns the registry it was given with at most the slots
  \<open>keyblob_keys\<close>, \<open>keyblob_mac_keys\<close>, \<open>device_key\<close>, \<open>package1_keys\<close>, \<open>master_keks\<close> and
  \<open>master_keys\<close> replaced; each of the other 43 fields of the result, listed one by one,
  is the field of the input.
\<close>

theorem DeriveKeys_frame:
  "DeriveKeys dec kg ks =
     ks\<lparr>keyblob_keys := keyblob_keys (DeriveKeys dec kg ks),
        keyblob_mac_keys := keyblob_mac_keys (DeriveKeys dec kg ks),
        device_key := device_key (DeriveKeys dec kg ks),
        package1_keys := package1_keys (DeriveKeys dec kg ks),
        master_keks := master_keks (DeriveKeys dec kg ks),
        master_keys := master_keys (DeriveKeys dec kg ks)\<rparr>
   \<and> secure_boot_key (DeriveKeys dec kg ks) = secure_boot_key ks
   \<and> tsec_key (DeriveKeys dec kg ks) = tsec_key ks
   \<and> encrypted_keyblobs (DeriveKeys dec kg ks) = encrypted_keyblobs ks
   \<and> mariko_aes_class_keys (DeriveKeys dec kg ks) = mariko_aes_class_keys ks
   \<and> mariko_kek (DeriveKeys dec kg ks) = mariko_kek ks
   \<and> mariko_bek (DeriveKeys dec kg ks) = mariko_bek ks
   \<and> keyblobs (DeriveKeys dec kg ks) = keyblobs ks
   \<and> keyblob_key_sources (DeriveKeys dec kg ks) = keyblob_key_sources ks
   \<and> keyblob_mac_key_source (DeriveKeys dec kg ks) = keyblob_mac_key_source ks
   \<and> tsec_root_kek (DeriveKeys dec kg ks) = tsec_root_kek ks
   \<and> package1_mac_kek (DeriveKeys dec kg ks) = package1_mac_kek ks
   \<and> package1_kek (DeriveKeys dec kg ks) = package1_kek ks
   \<and> tsec_auth_signatures (DeriveKeys dec kg ks) = tsec_auth_signatures ks
   \<and> tsec_root_keys (DeriveKeys dec kg ks) = tsec_root_keys ks
   \<and> master_kek_sources (DeriveKeys dec kg ks) = master_kek_sources ks
   \<and> mariko_master_kek_sources (DeriveKeys dec kg ks) = mariko_master_kek_sources ks
   \<and> master_key_source (DeriveKeys dec kg ks) = master_key_source ks
   \<and> package1_mac_keys (DeriveKeys dec kg ks) = package1_mac_keys ks
   \<and> package2_keys (DeriveKeys dec kg ks) = package2_keys ks
   \<and> package2_key_source (DeriveKeys dec kg ks) = package2_key_source ks
   \<and> per_console_key_source (DeriveKeys dec kg ks) = per_console_key_source ks
   \<and> aes_kek_generation_source (DeriveKeys dec kg ks) = aes_kek_generation_source ks
   \<and> aes_key_generation_source (DeriveKeys dec kg ks) = aes_key_generation_source ks
   \<and> key_area_key_application_source (DeriveKeys dec kg ks) = key_area_key_application_source ks
   \<and> key_area_key_ocean_source (DeriveKeys dec kg ks) = key_area_key_ocean_source ks
   \<and> key_area_key_system_source (DeriveKeys dec kg ks) = key_area_key_system_source ks
   \<and> titlekek_source (DeriveKeys dec kg ks) = titlekek_source ks
   \<and> header_kek_source (DeriveKeys dec kg ks) = header_kek_source ks
   \<and> sd_card_kek_source (DeriveKeys dec kg ks) = sd_card_kek_source ks
   \<and> sd_card_nca_key_source (DeriveKeys dec kg ks) = sd_card_nca_key_source ks
   \<and> sd_card_save_key_source (DeriveKeys dec kg ks) = sd_card_save_key_source ks
   \<and> save_mac_kek_source (DeriveKeys dec kg ks) = save_mac_kek_source ks
   \<and> save_mac_key_source (DeriveKeys dec kg ks) = save_mac_key_source ks
   \<and> header_key_source (DeriveKeys dec kg ks) = header_key_source ks
   \<and> header_key (DeriveKeys dec kg ks) = header_key ks
   \<and> titlekeks (DeriveKeys dec kg ks) = titlekeks ks
   \<and> key_area_keys (DeriveKeys dec kg ks) = key_area_keys ks
   \<and> xci_header_key (DeriveKeys dec kg ks) = xci_header_key ks
   \<and> save_mac_key (DeriveKeys dec kg ks) = save_mac_key ks
   \<and> sd_card_keys (DeriveKeys dec kg ks) = sd_card_keys ks
   \<and> nca_hdr_fixed_key_moduli (DeriveKeys dec kg ks) = nca_hdr_fixed_key_moduli ks
   \<and> acid_fixed_key_moduli (DeriveKeys dec kg ks) = acid_fixed_key_moduli ks
   \<and> package2_fixed_key_modulus (DeriveKeys dec kg ks) = package2_fixed_key_modulus ks"
proof -
  have eq: "DeriveKeys dec kg ks =
     ks\<lparr>keyblob_keys := keyblob_keys (DeriveKeys dec kg ks),
        keyblob_mac_keys := keyblob_mac_keys (DeriveKeys dec kg ks),
        device_key := device_key (DeriveKeys dec kg ks),
        package1_keys := package1_keys (DeriveKeys dec kg ks),
        master_keks := master_keks (DeriveKeys dec kg ks),
        master_keys := master_keys (DeriveKeys dec kg ks)\<rparr>"
    using derived_only_DeriveKeys [of ks dec kg] by (simp add: derived_only_def)
  have same: "sel (DeriveKeys dec kg ks) = sel ks"
    if "\<And>a b c d e f. sel (ks\<lparr>keyblob_keys := a, keyblob_mac_keys := b, device_key := c,
          package1_keys := d, master_keks := e, master_keys := f\<rparr>) = sel ks"
    for sel :: "KeySet \<Rightarrow> 'a"
    by (subst eq) (rule that)
  show ?thesis
    by (intro conjI eq same) simp_all
qed

section \<open>Properties of the hex codec and the title-key loader\<close>

lemma strlen_bound:
  assumes "strlen mem p = Some n"
  shows "p + n < length mem"
proof -
  from assms have nul: "NUL \<in> set (drop p mem)"
    and n: "n = length (takeWhile (\<lambda>c. c \<noteq> NUL) (drop p mem))"
    by (auto simp: strlen_def split: if_splits)
  from nul have "takeWhile (\<lambda>c. c \<noteq> NUL) (drop p mem) \<noteq> drop p mem"
    by auto
  then have "length (takeWhile (\<lambda>c. c \<noteq> NUL) (drop p mem)) < length (drop p mem)"
    by (metis length_takeWhile_le le_neq_implies_less takeWhile_eq_take take_all)
  with n show ?thesis
    by simp
qed

lemma DecodeHex_in_bounds:
  assumes "strlen mem src = Some len" and "src + 2 * sz \<le> length mem"
  shows "DecodeHex mem src sz =
           Some (if len \<noteq> 2 * sz then [HexLengthMismatch len (2 * sz)] else [],
                 decode_pairs mem src sz)"
  using assms by (simp add: DecodeHex_def)

text \<open>
  C4. The claim has \<open>DecodeHex\<close> decode only the pairs of \<open>src\<close> and never read past its
  end. The loop of the source runs \<open>size\<close> times whatever \<open>strlen(src)\<close> is. For the value
  \<open>00\<close> of a line \<open>secure_boot_key = 00\<close>, decoded into a 16-byte slot, it reads the
  terminator and 29 characters behind it: with the line \<open>tsec_key = ffee...\<close> next in the
  buffer, hex digits of that line end up in the decoded key; with nothing behind the
  terminator the read leaves the buffer. The third statement runs the parser on the two
  lines with a callback that decodes each value into 16 bytes, as \<open>LoadExternalKey\<close> does
  for these two names.
\<close>

theorem DecodeHex_reads_past_terminator:
  "DecodeHex (''00'' @ [NUL] @ ''tsec_key = ffeeddccbbaa99887766554433221100'' @ [CHR 0x0A]) 0 16 =
     Some ([HexLengthMismatch 2 32],
           [0x00, 0x00, 0x0E, 0xC0, 0x0E, 0x00, 0x00, 0xFF,
            0xEE, 0xDD, 0xCC, 0xBB, 0xAA, 0x99, 0x88, 0x77])
   \<and> DecodeHex (''00'' @ [NUL]) 0 16 = None
   \<and> ProcessKeyValueFile (\<lambda>mem key val acc. acc @ [(cstr mem key, DecodeHex mem val 16)])
         (''secure_boot_key = 00'' @ [CHR 0x0A]
            @ ''tsec_key = ffeeddccbbaa99887766554433221100'' @ [CHR 0x0A]) [] =
       (([], [(''secure_boot_key'',
               Some ([HexLengthMismatch 2 32],
                     [0x00, 0x00, 0x0E, 0xC0, 0x0E, 0x00, 0x00, 0xFF,
                      0xEE, 0xDD, 0xCC, 0xBB, 0xAA, 0x99, 0x88, 0x77])),
              (''tsec_key'',
               Some ([], [0xFF, 0xEE, 0xDD, 0xCC, 0xBB, 0xAA, 0x99, 0x88,
                          0x77, 0x66, 0x55, 0x44, 0x33, 0x22, 0x11, 0x00]))]),
        Finished)"
  by code_simp

text \<open>
  What \<open>LoadTitleKey\<close> does while its reads stay inside \<open>mem\<close>. It returns without
  registering when the rights identifier is malformed: odd length, a length other than
  32, or a character that is not a hex digit. With a well-formed identifier and the 32
  characters at \<open>value\<close> inside \<open>mem\<close>, the pair is registered whatever the length of the
  value is; a value whose length is not 32 adds the warning of \<open>LoadTitleKey\<close> and the one
  of \<open>DecodeHex\<close>, and the access key is decoded from those 32 characters.
\<close>

lemma LoadTitleKey_in_bounds:
  assumes "strlen mem key = Some key_len"
  shows "(key_len mod 2 \<noteq> 0 \<or> key_len \<noteq> 32 \<or> list_ex not_hex (take key_len (drop key mem))
            \<longrightarrow> (\<exists>w. LoadTitleKey reg km mem key val = Some ([w], km)))
       \<and> (key_len = 32 \<and> \<not> list_ex not_hex (take key_len (drop key mem))
            \<and> strlen mem val = Some value_len \<and> val + 2 * AccessKeySize \<le> length mem
            \<longrightarrow> LoadTitleKey reg km mem key val =
                  Some (if value_len \<noteq> 32
                        then [AccessKeyWrongLength, HexLengthMismatch value_len 32] else [],
                        reg km (decode_pairs mem key RightsIdSize)
                          (decode_pairs mem val AccessKeySize)))"
proof (intro conjI impI)
  assume "key_len mod 2 \<noteq> 0 \<or> key_len \<noteq> 32 \<or> list_ex not_hex (take key_len (drop key mem))"
  with assms show "\<exists>w. LoadTitleKey reg km mem key val = Some ([w], km)"
    by (auto simp: LoadTitleKey_def)
next
  assume ok: "key_len = 32 \<and> \<not> list_ex not_hex (take key_len (drop key mem))
            \<and> strlen mem val = Some value_len \<and> val + 2 * AccessKeySize \<le> length mem"
  from assms ok have "key + 2 * RightsIdSize \<le> length mem"
    using strlen_bound [of mem key key_len] by (simp add: RightsIdSize_def)
  with assms ok have k: "DecodeHex mem key RightsIdSize = Some ([], decode_pairs mem key RightsIdSize)"
    by (simp add: DecodeHex_in_bounds RightsIdSize_def)
  from ok have v: "DecodeHex mem val AccessKeySize =
      Some (if value_len \<noteq> 32 then [HexLengthMismatch value_len 32] else [],
            decode_pairs mem val AccessKeySize)"
    by (simp add: DecodeHex_in_bounds AccessKeySize_def)
  from assms ok show "LoadTitleKey reg km mem key val =
                  Some (if value_len \<noteq> 32
                        then [AccessKeyWrongLength, HexLengthMismatch value_len 32] else [],
                        reg km (decode_pairs mem key RightsIdSize)
                          (decode_pairs mem val AccessKeySize))"
    by (auto simp: LoadTitleKey_def k v)
qed

text \<open>
  The first call of the callback on \<open>titlekey_file\<close> is made with \<open>titlekey_buffer\<close> and the
  offsets 0 and 33.
\<close>

lemma titlekey_buffer_from_file:
  "take 1 (snd (fst (ProcessKeyValueFile (\<lambda>mem key val acc. acc @ [(mem, key, val)])
      titlekey_file []))) = [(titlekey_buffer, 0, 33)]"
  by code_simp

text \<open>
  On \<open>titlekey_buffer\<close> the value has four characters: both warnings are given and the pair
  is registered, the access key taking its bytes behind the first two from the terminator
  and the line that follows. On \<open>short_id_buffer\<close> nothing is registered.
\<close>

lemma LoadTitleKey_in_bounds_samples:
  "strlen titlekey_buffer 0 = Some 32
   \<and> \<not> list_ex not_hex (take 32 (drop 0 titlekey_buffer))
   \<and> strlen titlekey_buffer 33 = Some 4
   \<and> 33 + 2 * AccessKeySize \<le> length titlekey_buffer
   \<and> LoadTitleKey km_register [] titlekey_buffer 0 33 =
       Some ([AccessKeyWrongLength, HexLengthMismatch 4 32],
             [([0x01, 0x23, 0x45, 0x67, 0x89, 0xAB, 0xCD, 0xEF,
                0x01, 0x23, 0x45, 0x67, 0x89, 0xAB, 0xCD, 0xEF],
               [0xA1, 0xB2, 0x0F, 0xED, 0xCB, 0xA9, 0x87, 0x65,
                0x43, 0x21, 0x00, 0x12, 0x34, 0x56, 0x78, 0x9A])])
   \<and> strlen short_id_buffer 0 = Some 31
   \<and> (\<exists>w. LoadTitleKey km_register [] short_id_buffer 0 32 = Some ([w], []))
   \<and> LoadTitleKey km_register [] short_id_buffer 0 32 = Some ([RightsIdOddLength], [])"
proof -
  have k: "strlen titlekey_buffer 0 = Some 32"
    and hex: "\<not> list_ex not_hex (take 32 (drop 0 titlekey_buffer))"
    and v: "strlen titlekey_buffer 33 = Some 4"
    and room: "33 + 2 * AccessKeySize \<le> length titlekey_buffer"
    by code_simp+
  have rid: "decode_pairs titlekey_buffer 0 RightsIdSize =
      [0x01, 0x23, 0x45, 0x67, 0x89, 0xAB, 0xCD, 0xEF, 0x01, 0x23, 0x45, 0x67, 0x89, 0xAB, 0xCD, 0xEF]"
    by code_simp
  have ak: "decode_pairs titlekey_buffer 33 AccessKeySize =
      [0xA1, 0xB2, 0x0F, 0xED, 0xCB, 0xA9, 0x87, 0x65, 0x43, 0x21, 0x00, 0x12, 0x34, 0x56, 0x78, 0x9A]"
    by code_simp
  have registered: "LoadTitleKey km_register [] titlekey_buffer 0 33 =
       Some ([AccessKeyWrongLength, HexLengthMismatch 4 32],
             [([0x01, 0x23, 0x45, 0x67, 0x89, 0xAB, 0xCD, 0xEF,
                0x01, 0x23, 0x45, 0x67, 0x89, 0xAB, 0xCD, 0xEF],
               [0xA1, 0xB2, 0x0F, 0xED, 0xCB, 0xA9, 0x87, 0x65,
                0x43, 0x21, 0x00, 0x12, 0x34, 0x56, 0x78, 0x9A])])"
    using LoadTitleKey_in_bounds [OF k, where val = 33 and value_len = 4 and reg = km_register
        and km = "[]"] hex v room
    by (simp add: rid ak km_register_def)
  have short: "strlen short_id_buffer 0 = Some 31"
    by code_simp
  have refused: "\<exists>w. LoadTitleKey km_register [] short_id_buffer 0 32 = Some ([w], [])"
    using LoadTitleKey_in_bounds [OF short, where val = 32 and reg = km_register and km = "[]"]
    by simp
  have warning: "LoadTitleKey km_register [] short_id_buffer 0 32 = Some ([RightsIdOddLength], [])"
    by code_simp
  from k hex v room registered short refused warning show ?thesis
    by (intro conjI)
qed


text \<open>
  C10. The claim has a pair with a well-formed rights identifier decoded and registered
  also when the length of the value is not 32. The code does not do that for every such
  pair. On the one-line file \<open>short_value_file\<close> the parser calls back with
  \<open>short_value_buffer\<close> and the offsets 0 and 33: the rights identifier has 32 hex digits,
  the value \<open>a1b2\<close> has four, and its terminator is the last byte of the buffer. After the
  warning \<open>LoadTitleKey\<close> calls \<open>DecodeHex\<close> for 16 bytes, whose loop reads 32 characters
  from the value on: 27 of them lie behind the end of the buffer, so the behaviour is
  undefined and the model has no key manager to return. This is the loop of \<open>DecodeHex\<close>
  that C4 is about.
\<close>

theorem LoadTitleKey_reads_past_buffer:
  "take 1 (snd (fst (ProcessKeyValueFile (\<lambda>mem key val acc. acc @ [(mem, key, val)])
      short_value_file []))) = [(short_value_buffer, 0, 33)]
   \<and> strlen short_value_buffer 0 = Some 32
   \<and> \<not> list_ex not_hex (take 32 (drop 0 short_value_buffer))
   \<and> strlen short_value_buffer 33 = Some 4
   \<and> \<not> list_ex not_hex (take 4 (drop 33 short_value_buffer))
   \<and> length short_value_buffer = 38
   \<and> DecodeHex short_value_buffer 0 RightsIdSize =
       Some ([], [0x01, 0x23, 0x45, 0x67, 0x89, 0xAB, 0xCD, 0xEF,
                  0x01, 0x23, 0x45, 0x67, 0x89, 0xAB, 0xCD, 0xEF])
   \<and> DecodeHex short_value_buffer 33 AccessKeySize = None
   \<and> LoadTitleKey km_register [] short_value_buffer 0 33 = None
   \<and> ProcessKeyValueFile
         (\<lambda>mem key val acc. acc @ [LoadTitleKey km_register [] mem key val])
         short_value_file [] = (([], [None]), Finished)"
  by code_simp

section \<open>Properties of the key-value parser\<close>

subsection \<open>The scans on a token\<close>

















lemma length_nul_head [simp]: "length (nul_head sp) = length sp"
  by (cases sp) (simp_all add: nul_head_def)








text \<open>
  C3, as the claim states it: on the buffer \<open>key_a=0011,KEY_B = 2233\<close> with a final newline
  the parser emits \<open>(key_a, 0011)\<close> and \<open>(key_b, 2233)\<close>. It emits nothing. A comma ends a
  key, not a value: the value loop stops at a newline, a carriage return, a blank or a
  tab only, so the first value token is \<open>0011,KEY_B\<close>, which \<open>ProcessKeyValue\<close> rejects as
  not hexadecimal; the scan goes on at \<open>= 2233\<close>, an empty key, where the function returns.
\<close>

theorem comma_separated_pairs_counterexample:
  "ProcessKeyValueFile collect (''key_a=0011,KEY_B = 2233'' @ [CHR 0x0A]) [] =
     (([ValueNotHex, EmptyKey], []), Aborted)
   \<and> snd (fst (ProcessKeyValueFile collect (''key_a=0011,KEY_B = 2233'' @ [CHR 0x0A]) [])) \<noteq>
       [(''key_a'', ''0011''), (''key_b'', ''2233'')]"
  by code_simp

text \<open>
  C3, amended. With the two entries separated by a blank, the buffer
  \<open>key_a=0011 KEY_B = 2233\<close> with a final newline, the parser emits exactly the two pairs
  \<open>(key_a, 0011)\<close> and \<open>(key_b, 2233)\<close>, in that order, the uppercase key folded to
  lowercase, and ends at the end of the buffer without a warning.
\<close>

theorem whitespace_separated_pairs:
  "ProcessKeyValueFile collect (''key_a=0011 KEY_B = 2233'' @ [CHR 0x0A]) [] =
     (([], [(''key_a'', ''0011''), (''key_b'', ''2233'')]), Finished)"
  by code_simp




end
